theory Spec2Isabelle
  imports Main
begin

section \<open>The Document model (documents/models.py)\<close>

text \<open>
  A timestamp is a point on the clock that \<^verbatim>\<open>timezone.now()\<close> reads; only its
  identity matters here, so it is an integer (say, microseconds since the epoch).
\<close>

type_synonym timestamp = int

text \<open>
  The model class, one field per column. The primary key \<^verbatim>\<open>id\<close> is \<open>None\<close> on an
  instance that has never been saved; it is called \<open>id_doc\<close> because \<open>id\<close> is the
  identity function of HOL. \<^verbatim>\<open>owner\<close> is the key of the owning user. \<^verbatim>\<open>content\<close> and
  \<^verbatim>\<open>active_at\<close> are nullable; \<^verbatim>\<open>created_at\<close> and \<^verbatim>\<open>updated_at\<close> are unset until the
  framework fills them in at the first save.
\<close>

record Document =
  id_doc :: "int option"
  owner :: int
  title :: string
  content :: "string option"
  active :: bool
  active_at :: "timestamp option"
  created_at :: "timestamp option"
  updated_at :: "timestamp option"

text \<open>
  The table behind \<^verbatim>\<open>Document.objects\<close>: its rows, in the order in which the database
  yields them.
\<close>

type_synonym store = "Document list"

text \<open>The primary-key constraint of the table: no two rows carry the same \<^verbatim>\<open>id\<close>.\<close>

definition pk_unique :: "store \<Rightarrow> bool" where
  "pk_unique db = distinct (map id_doc db)"

subsection \<open>The framework's save\<close>

text \<open>
  Modelled from the spec: the identifier that the store assigns on creation, which is
  not part of the repository: one above every key in the table.
\<close>

definition fresh_id :: "store \<Rightarrow> int" where
  "fresh_id db = 1 + fold max (map (\<lambda>r. case id_doc r of None \<Rightarrow> 0 | Some i \<Rightarrow> i) db) 0"

text \<open>
  Modelled from the spec: \<^verbatim>\<open>super().save()\<close>, the framework's \<^verbatim>\<open>Model.save\<close>, which is
  not part of the repository. It is the store's whole-record \<^verbatim>\<open>create/update(record)\<close>:
  an instance without \<^verbatim>\<open>id\<close> is inserted under a key assigned by the store; an instance
  whose \<^verbatim>\<open>id\<close> is in the table replaces that row; \<^verbatim>\<open>created_at\<close> is set at creation and
  \<^verbatim>\<open>updated_at\<close> is refreshed on every save. \<open>now\<close> is the clock as the framework reads
  it. No other field of the instance is touched. Failures of the store (constraint
  violations, connectivity) are not modelled.
\<close>

definition Model_save :: "timestamp \<Rightarrow> Document \<Rightarrow> store \<Rightarrow> Document \<times> store" where
  "Model_save now self db =
     (case id_doc self of
        None \<Rightarrow>
          (let obj = self\<lparr>id_doc := Some (fresh_id db),
                          created_at := Some now, updated_at := Some now\<rparr>
           in (obj, db @ [obj]))
      | Some i \<Rightarrow>
          if list_ex (\<lambda>r. id_doc r = Some i) db
          then (let obj = self\<lparr>updated_at := Some now\<rparr>
                in (obj, map (\<lambda>r. if id_doc r = Some i then obj else r) db))
          else (let obj = self\<lparr>created_at := Some now, updated_at := Some now\<rparr>
                in (obj, db @ [obj])))"

subsection \<open>Document.save\<close>

text \<open>
  Lines 20 to 23 of \<^verbatim>\<open>Document.save\<close>, the adjustment of \<^verbatim>\<open>active_at\<close> made on the
  instance before it is handed to the framework:
  \<^verbatim>\<open>
      if self.active and self.active_at is None:
          self.active_at = timezone.now()
      elif not self.active:
          self.active_at = None
  \<close>
  \<open>now\<close> is the value \<^verbatim>\<open>timezone.now()\<close> returns at line 21.
\<close>

definition save_active_at :: "timestamp \<Rightarrow> Document \<Rightarrow> Document" where
  "save_active_at now self =
     (if active self \<and> active_at self = None then self\<lparr>active_at := Some now\<rparr>
      else if \<not> active self then self\<lparr>active_at := None\<rparr>
      else self)"

text \<open>
  \<^verbatim>\<open>Document.save\<close>: the adjustment, then \<^verbatim>\<open>super().save(*args, **kwargs)\<close> (line 24),
  which reads the clock again (\<open>now'\<close>). The result is the instance as the caller sees
  it after the call, and the table.
\<close>

definition save :: "timestamp \<Rightarrow> timestamp \<Rightarrow> Document \<Rightarrow> store \<Rightarrow> Document \<times> store" where
  "save now now' self db = Model_save now' (save_active_at now self) db"

section \<open>The query functions (AI/tools.py)\<close>

text \<open>The Python values that the result dictionaries hold, and those dictionaries.\<close>

datatype pyval = PyNone | PyInt int | PyStr string

type_synonym dict = "string \<rightharpoonup> pyval"

text \<open>The exceptions of \<^verbatim>\<open>Document.objects.get\<close>.\<close>

datatype exn = DoesNotExist | MultipleObjectsReturned

text \<open>The value of the attribute \<^verbatim>\<open>obj.id\<close>.\<close>

definition py_id :: "Document \<Rightarrow> pyval" where
  "py_id obj = (case id_doc obj of None \<Rightarrow> PyNone | Some i \<Rightarrow> PyInt i)"

subsection \<open>The framework's queries\<close>

text \<open>
  Modelled from the spec: \<^verbatim>\<open>Document.objects.filter(...)\<close>, the store's
  \<^verbatim>\<open>find(predicate)\<close>, which is not part of the repository: the rows that satisfy the
  predicate, in the order of the table. The table is returned as it was.
\<close>

definition objects_filter :: "(Document \<Rightarrow> bool) \<Rightarrow> store \<Rightarrow> Document list \<times> store" where
  "objects_filter p db = (filter p db, db)"

text \<open>
  Modelled from the spec: \<^verbatim>\<open>Document.objects.get(...)\<close>, the store's
  \<^verbatim>\<open>get(id, predicate)\<close>, which is not part of the repository: the single row that
  satisfies the predicate; \<^verbatim>\<open>DoesNotExist\<close> when there is none, and, as the framework
  does, \<^verbatim>\<open>MultipleObjectsReturned\<close> when there are several. The table is returned as it
  was.
\<close>

definition objects_get :: "(Document \<Rightarrow> bool) \<Rightarrow> store \<Rightarrow> (exn + Document) \<times> store" where
  "objects_get p db =
     (case filter p db of
        [] \<Rightarrow> (Inl DoesNotExist, db)
      | [obj] \<Rightarrow> (Inr obj, db)
      | _ \<Rightarrow> (Inl MultipleObjectsReturned, db))"

subsection \<open>list_documents\<close>

text \<open>
  The loop of lines 10 to 14: each object of the query set appends its dictionary to
  \<^verbatim>\<open>response_data\<close>.
\<close>

fun list_documents_loop :: "Document list \<Rightarrow> dict list \<Rightarrow> dict list" where
  "list_documents_loop [] response_data = response_data"
| "list_documents_loop (obj # qs) response_data =
     list_documents_loop qs
       (response_data @ [[''id'' \<mapsto> py_id obj, ''title'' \<mapsto> PyStr (title obj)]])"

definition list_documents :: "store \<Rightarrow> dict list \<times> store" where
  "list_documents db =
     (case objects_filter (\<lambda>r. active r = True) db of
        (qs, db') \<Rightarrow> (list_documents_loop qs [], db'))"

subsection \<open>get_document\<close>

text \<open>
  The \<^verbatim>\<open>try\<close> block returns the dictionary of the object found; the handler catches
  \<^verbatim>\<open>Document.DoesNotExist\<close> only, so any other exception leaves the function (\<open>Inl\<close>).
\<close>

definition get_document :: "int \<Rightarrow> store \<Rightarrow> (exn + dict) \<times> store" where
  "get_document document_id db =
     (case objects_get (\<lambda>r. id_doc r = Some document_id \<and> active r = True) db of
        (Inr obj, db') \<Rightarrow> (Inr [''id'' \<mapsto> py_id obj, ''title'' \<mapsto> PyStr (title obj)], db')
      | (Inl DoesNotExist, db') \<Rightarrow> (Inr [''error'' \<mapsto> PyStr ''Document not found.''], db')
      | (Inl e, db') \<Rightarrow> (Inl e, db'))"

section \<open>Example values\<close>

text \<open>
  A new instance as \<^verbatim>\<open>Document(owner=1, title="Report")\<close> builds it, and a table of two
  rows: an active document and an inactive one.
\<close>

definition report :: Document where
  "report = \<lparr>id_doc = None, owner = 1, title = ''Report'', content = None, active = True,
              active_at = None, created_at = None, updated_at = None\<rparr>"

definition report_row :: Document where
  "report_row = \<lparr>id_doc = Some 1, owner = 1, title = ''Report'', content = None,
                  active = True, active_at = Some 100, created_at = Some 101,
                  updated_at = Some 101\<rparr>"

definition memo_row :: Document where
  "memo_row = \<lparr>id_doc = Some 2, owner = 1, title = ''Memo'', content = Some ''draft'',
                active = False, active_at = None, created_at = Some 111,
                updated_at = Some 121\<rparr>"

definition example_db :: store where
  "example_db = [report_row, memo_row]"

section \<open>Properties of Document.save\<close>

text \<open>The framework's save leaves the two activation fields of the instance alone.\<close>

lemma Model_save_active_at: "active_at (fst (Model_save now self db)) = active_at self"
  by (simp add: Model_save_def Let_def split: option.splits)

lemma Model_save_active: "active (fst (Model_save now self db)) = active self"
  by (simp add: Model_save_def Let_def split: option.splits)

text \<open>
  C1. A document saved while \<^verbatim>\<open>active\<close> is true: if \<^verbatim>\<open>active_at\<close> was unset, the save
  sets it to the current time; if it was set, the save leaves it as it was.
\<close>

theorem save_active_sets_active_at_once:
  "active self \<Longrightarrow>
   active_at (fst (save now now' self db)) =
     (case active_at self of None \<Rightarrow> Some now | Some t \<Rightarrow> Some t)"
  by (simp add: save_def save_active_at_def Model_save_active_at split: option.splits)

theorem save_active_sets_active_at_once_witness:
  "active report \<and> active_at (fst (save 200 201 report example_db)) = Some 200 \<and>
   active report_row \<and> active_at (fst (save 200 201 report_row example_db)) = Some 100"
  using save_active_sets_active_at_once [where self = report and now = 200 and now' = 201
      and db = example_db]
    save_active_sets_active_at_once [where self = report_row and now = 200 and now' = 201
      and db = example_db]
  by (simp add: report_def report_row_def)

text \<open>
  C2. A document saved while \<^verbatim>\<open>active\<close> is false has \<^verbatim>\<open>active_at\<close> unset after the save,
  whatever \<^verbatim>\<open>active_at\<close> held before.
\<close>

theorem save_inactive_clears_active_at:
  "\<not> active self \<Longrightarrow> active_at (fst (save now now' self db)) = None"
  by (simp add: save_def save_active_at_def Model_save_active_at)

theorem save_inactive_clears_active_at_witness:
  "\<not> active (report_row\<lparr>active := False\<rparr>) \<and>
   active_at (report_row\<lparr>active := False\<rparr>) = Some 100 \<and>
   active_at (fst (save 200 201 (report_row\<lparr>active := False\<rparr>) example_db)) = None"
  using save_inactive_clears_active_at [where self = "report_row\<lparr>active := False\<rparr>"
      and now = 200 and now' = 201 and db = example_db]
  by (simp add: report_row_def)

text \<open>
  C7. After any save, \<^verbatim>\<open>active_at\<close> is set if and only if \<^verbatim>\<open>active\<close> is true, whatever
  the fields held before the save.
\<close>

theorem save_active_at_iff_active:
  "(active_at (fst (save now now' self db)) \<noteq> None) = active (fst (save now now' self db))"
  by (simp add: save_def save_active_at_def Model_save_active_at Model_save_active)

theorem save_active_at_iff_active_witness:
  "(active_at (fst (save 200 201 (memo_row\<lparr>active_at := Some 50\<rparr>) example_db)) \<noteq> None)
   = active (fst (save 200 201 (memo_row\<lparr>active_at := Some 50\<rparr>) example_db))"
  by (rule save_active_at_iff_active)

text \<open>
  C9. The adjustment of \<^verbatim>\<open>active_at\<close> made before the framework's save is idempotent:
  made a second time right after the first (at whatever time), it changes nothing.
\<close>

theorem save_active_at_idempotent:
  "save_active_at now2 (save_active_at now1 self) = save_active_at now1 self"
  by (simp add: save_active_at_def)

theorem save_active_at_idempotent_witness:
  "save_active_at 300 (save_active_at 200 report) = save_active_at 200 report"
  by (rule save_active_at_idempotent)

subsection \<open>What save does to the table\<close>

lemma fold_max_ge_init: "(a::int) \<le> fold max xs a"
proof (induction xs arbitrary: a)
  case Nil
  show ?case by simp
next
  case (Cons x xs)
  have "a \<le> max x a" by simp
  also have "max x a \<le> fold max xs (max x a)" by (rule Cons.IH)
  finally show ?case by simp
qed

lemma fold_max_ge_elem: "x \<in> set xs \<Longrightarrow> (x::int) \<le> fold max xs a"
proof (induction xs arbitrary: a)
  case Nil
  then show ?case by simp
next
  case (Cons y ys)
  show ?case
  proof (cases "x = y")
    case True
    have "x \<le> max y a" using True by simp
    also have "max y a \<le> fold max ys (max y a)" by (rule fold_max_ge_init)
    finally show ?thesis by simp
  next
    case False
    with Cons.prems have "x \<in> set ys" by simp
    then have "x \<le> fold max ys (max y a)" by (rule Cons.IH)
    then show ?thesis by simp
  qed
qed

lemma fresh_id_fresh: "Some (fresh_id db) \<notin> set (map id_doc db)"
proof
  assume "Some (fresh_id db) \<in> set (map id_doc db)"
  then obtain r where r: "r \<in> set db" "id_doc r = Some (fresh_id db)" by auto
  then have "fresh_id db \<in> set (map (\<lambda>r. case id_doc r of None \<Rightarrow> 0 | Some i \<Rightarrow> i) db)"
    by force
  then have "fresh_id db \<le> fold max (map (\<lambda>r. case id_doc r of None \<Rightarrow> 0 | Some i \<Rightarrow> i) db) 0"
    by (rule fold_max_ge_elem)
  then show False by (simp add: fresh_id_def)
qed

text \<open>The instance that save returns is a row of the table it returns.\<close>

lemma save_persists: "fst (save now now' self db) \<in> set (snd (save now now' self db))"
  by (auto simp: save_def Model_save_def Let_def list_ex_iff split: option.splits)

text \<open>Save keeps the keys of the table distinct.\<close>

lemma Model_save_pk_unique:
  assumes "pk_unique db"
  shows "pk_unique (snd (Model_save now self db))"
proof (cases "id_doc self")
  case None
  with assms fresh_id_fresh [of db] show ?thesis
    by (simp add: Model_save_def Let_def pk_unique_def)
next
  case (Some i)
  show ?thesis
  proof (cases "list_ex (\<lambda>r. id_doc r = Some i) db")
    case True
    have "map id_doc (map (\<lambda>r. if id_doc r = Some i then self\<lparr>updated_at := Some now\<rparr> else r) db)
          = map id_doc db"
      using Some by (induction db) simp_all
    with assms Some True show ?thesis
      by (simp add: Model_save_def Let_def pk_unique_def del: map_map)
  next
    case False
    then have "Some i \<notin> set (map id_doc db)"
      by (auto simp: list_ex_iff)
    with assms Some False show ?thesis
      by (simp add: Model_save_def Let_def pk_unique_def)
  qed
qed

lemma save_pk_unique: "pk_unique db \<Longrightarrow> pk_unique (snd (save now now' self db))"
  unfolding save_def by (rule Model_save_pk_unique)

text \<open>
  If every row of the table has \<^verbatim>\<open>active_at\<close> set exactly when it is active, so has
  every row after a save.
\<close>

lemma save_rows_invariant:
  assumes "\<forall>r\<in>set db. (active_at r \<noteq> None) = active r"
  shows "\<forall>r\<in>set (snd (save now now' self db)). (active_at r \<noteq> None) = active r"
proof -
  have "(active_at (save_active_at now self) \<noteq> None) = active (save_active_at now self)"
    by (simp add: save_active_at_def)
  with assms show ?thesis
    by (auto simp: save_def Model_save_def Let_def split: option.splits if_splits)
qed

section \<open>Properties of the query functions\<close>

lemma list_documents_loop_map:
  "list_documents_loop qs acc =
     acc @ map (\<lambda>obj. [''id'' \<mapsto> py_id obj, ''title'' \<mapsto> PyStr (title obj)]) qs"
  by (induction qs arbitrary: acc) simp_all

lemma fst_list_documents:
  "fst (list_documents db) =
     map (\<lambda>obj. [''id'' \<mapsto> py_id obj, ''title'' \<mapsto> PyStr (title obj)]) (filter active db)"
  by (simp add: list_documents_def objects_filter_def list_documents_loop_map)

lemma py_id_inj: "py_id a = py_id b \<Longrightarrow> id_doc a = id_doc b"
  by (simp add: py_id_def split: option.splits)

text \<open>
  C3. \<^verbatim>\<open>list_documents()\<close> returns the active rows of the table, each as its
  \<^verbatim>\<open>{id, title}\<close> dictionary: every active document is in the result, and, the keys of
  the table being distinct, the id of an inactive document is the \<^verbatim>\<open>id\<close> of no entry.
\<close>

theorem list_documents_exactly_active:
  "fst (list_documents db) =
     map (\<lambda>obj. [''id'' \<mapsto> py_id obj, ''title'' \<mapsto> PyStr (title obj)]) (filter active db)
   \<and> (\<forall>r\<in>set db. active r \<longrightarrow>
         [''id'' \<mapsto> py_id r, ''title'' \<mapsto> PyStr (title r)] \<in> set (fst (list_documents db)))
   \<and> (pk_unique db \<longrightarrow>
        (\<forall>r\<in>set db. \<not> active r \<longrightarrow>
           (\<forall>m\<in>set (fst (list_documents db)). m ''id'' \<noteq> Some (py_id r))))"
proof (intro conjI ballI impI)
  show "fst (list_documents db) =
     map (\<lambda>obj. [''id'' \<mapsto> py_id obj, ''title'' \<mapsto> PyStr (title obj)]) (filter active db)"
    by (rule fst_list_documents)
next
  fix r assume "r \<in> set db" "active r"
  then show "[''id'' \<mapsto> py_id r, ''title'' \<mapsto> PyStr (title r)] \<in> set (fst (list_documents db))"
    by (auto simp: fst_list_documents)
next
  fix r m
  assume pk: "pk_unique db" and r: "r \<in> set db" "\<not> active r"
    and m: "m \<in> set (fst (list_documents db))"
  from m obtain r' where r': "r' \<in> set db" "active r'"
    and m_eq: "m = [''id'' \<mapsto> py_id r', ''title'' \<mapsto> PyStr (title r')]"
    by (auto simp: fst_list_documents)
  show "m ''id'' \<noteq> Some (py_id r)"
  proof
    assume "m ''id'' = Some (py_id r)"
    with m_eq have "py_id r' = py_id r" by simp
    then have "id_doc r' = id_doc r" by (rule py_id_inj)
    with pk r(1) r'(1) have "r' = r"
      unfolding pk_unique_def by (meson distinct_map inj_onD)
    with r(2) r'(2) show False by simp
  qed
qed

theorem list_documents_exactly_active_witness:
  "fst (list_documents example_db) = [[''id'' \<mapsto> PyInt 1, ''title'' \<mapsto> PyStr ''Report'']]
   \<and> pk_unique example_db \<and> memo_row \<in> set example_db \<and> \<not> active memo_row
   \<and> Some (PyInt 2) \<notin> set (map (\<lambda>m. m ''id'') (fst (list_documents example_db)))"
  using list_documents_exactly_active [of example_db]
  by (simp add: example_db_def report_row_def memo_row_def pk_unique_def py_id_def)

text \<open>
  C6. \<^verbatim>\<open>list_documents()\<close> has no failing path: it is a total function that returns a
  list, and on a table with no active row the list is empty.
\<close>

theorem list_documents_no_match:
  "(\<forall>r\<in>set db. \<not> active r) \<Longrightarrow> list_documents db = ([], db)"
  by (simp add: list_documents_def objects_filter_def)

theorem list_documents_no_match_witness:
  "\<not> active memo_row \<and> list_documents [memo_row] = ([], [memo_row])
   \<and> list_documents [] = ([], [])"
  using list_documents_no_match [of "[memo_row]"] list_documents_no_match [of "[]"]
  by (simp add: memo_row_def)

subsection \<open>get_document\<close>

lemma filter_unique:
  "distinct (map f xs) \<Longrightarrow> x \<in> set xs \<Longrightarrow> p x \<Longrightarrow> (\<And>y. p y \<Longrightarrow> f y = f x) \<Longrightarrow>
   filter p xs = [x]"
proof (induction xs)
  case Nil
  from Nil.prems(2) show ?case by simp
next
  case (Cons a xs)
  show ?case
  proof (cases "a = x")
    case True
    have "filter p xs = []"
    proof (rule ccontr)
      assume "filter p xs \<noteq> []"
      then obtain y where y: "y \<in> set xs" "p y"
        by (auto simp: filter_empty_conv)
      from y(1) have "f y \<in> f ` set xs" by (rule imageI)
      moreover from y(2) have "f y = f x" by (rule Cons.prems(4))
      ultimately have "f x \<in> f ` set xs" by simp
      with True Cons.prems(1) show False by simp
    qed
    with True Cons.prems(3) show ?thesis by simp
  next
    case False
    with Cons.prems(2) have x: "x \<in> set xs" by simp
    have "\<not> p a"
    proof
      assume "p a"
      then have "f a = f x" by (rule Cons.prems(4))
      moreover from x have "f x \<in> f ` set xs" by (rule imageI)
      ultimately have "f a \<in> f ` set xs" by simp
      with Cons.prems(1) show False by simp
    qed
    moreover from Cons.prems(1) have "distinct (map f xs)" by simp
    then have "filter p xs = [x]"
      using x Cons.prems(3) Cons.prems(4) by (rule Cons.IH)
    ultimately show ?thesis by simp
  qed
qed

lemma dom_found: "dom [''id'' \<mapsto> a, ''title'' \<mapsto> b] = {''id'', ''title''}"
  by (simp add: insert_commute)

lemma dom_not_found: "dom [''error'' \<mapsto> c] = {''error''}"
  by simp

lemma found_neq_not_found: "[''id'' \<mapsto> a, ''title'' \<mapsto> b] \<noteq> [''error'' \<mapsto> c]"
proof
  assume "[''id'' \<mapsto> a, ''title'' \<mapsto> b] = [''error'' \<mapsto> c]"
  then have "dom [''id'' \<mapsto> a, ''title'' \<mapsto> b] = dom [''error'' \<mapsto> c]" by simp
  then show False by (simp only: dom_found dom_not_found) simp
qed

text \<open>The three outcomes of \<^verbatim>\<open>get_document\<close>, by the number of rows that match.\<close>

lemma get_document_cases:
  "fst (get_document document_id db) =
     (case filter (\<lambda>r. id_doc r = Some document_id \<and> active r) db of
        [] \<Rightarrow> Inr [''error'' \<mapsto> PyStr ''Document not found.'']
      | [obj] \<Rightarrow> Inr [''id'' \<mapsto> py_id obj, ''title'' \<mapsto> PyStr (title obj)]
      | _ \<Rightarrow> Inl MultipleObjectsReturned)"
  by (simp add: get_document_def objects_get_def split: list.splits)

lemma no_match_iff:
  "(filter (\<lambda>r. id_doc r = Some document_id \<and> active r) db = [])
   \<longleftrightarrow> \<not> (\<exists>r\<in>set db. id_doc r = Some document_id \<and> active r)"
  by (auto simp: filter_empty_conv)

text \<open>
  C4. When the table (its keys distinct) holds an active document with the id asked
  for, \<^verbatim>\<open>get_document\<close> returns the dictionary of that document's \<^verbatim>\<open>id\<close> and \<^verbatim>\<open>title\<close>.
\<close>

theorem get_document_active:
  "pk_unique db \<Longrightarrow> r \<in> set db \<Longrightarrow> id_doc r = Some document_id \<Longrightarrow> active r \<Longrightarrow>
   fst (get_document document_id db) =
     Inr [''id'' \<mapsto> PyInt document_id, ''title'' \<mapsto> PyStr (title r)]"
proof -
  assume a: "pk_unique db" "r \<in> set db" "id_doc r = Some document_id" "active r"
  have "filter (\<lambda>r. id_doc r = Some document_id \<and> active r) db = [r]"
    using a by (intro filter_unique [where f = id_doc]) (simp_all add: pk_unique_def)
  then show ?thesis
    using a(3) by (simp add: get_document_cases py_id_def)
qed

theorem get_document_active_witness:
  "pk_unique example_db \<and> report_row \<in> set example_db \<and> id_doc report_row = Some 1
   \<and> active report_row
   \<and> fst (get_document 1 example_db) = Inr [''id'' \<mapsto> PyInt 1, ''title'' \<mapsto> PyStr ''Report'']"
  using get_document_active [of example_db report_row 1]
  by (simp add: example_db_def report_row_def memo_row_def pk_unique_def)

text \<open>
  C5. \<^verbatim>\<open>get_document\<close> returns (as a value, not as an exception) the dictionary
  \<^verbatim>\<open>{"error": "Document not found."}\<close> exactly when the table holds no active document
  with the id asked for.
\<close>

theorem get_document_not_found_iff:
  "fst (get_document document_id db) = Inr [''error'' \<mapsto> PyStr ''Document not found.'']
   \<longleftrightarrow> \<not> (\<exists>r\<in>set db. id_doc r = Some document_id \<and> active r)"
  unfolding no_match_iff [symmetric]
  by (simp add: get_document_cases found_neq_not_found split: list.splits)

theorem get_document_not_found_iff_witness:
  "fst (get_document 2 example_db) = Inr [''error'' \<mapsto> PyStr ''Document not found.'']
   \<and> fst (get_document 3 example_db) = Inr [''error'' \<mapsto> PyStr ''Document not found.'']
   \<and> fst (get_document 1 example_db) \<noteq> Inr [''error'' \<mapsto> PyStr ''Document not found.'']"
  using get_document_not_found_iff [of 2 example_db] get_document_not_found_iff [of 3 example_db]
    get_document_not_found_iff [of 1 example_db]
  by (simp add: example_db_def report_row_def memo_row_def)

text \<open>
  C10. The two dictionaries that \<^verbatim>\<open>get_document\<close> returns differ in shape: the one for
  a document found has the keys \<^verbatim>\<open>id\<close> and \<^verbatim>\<open>title\<close> and no others, so no \<^verbatim>\<open>error\<close> key;
  the one for a document not found has the key \<^verbatim>\<open>error\<close> and no other.
\<close>

theorem get_document_shapes:
  "fst (get_document document_id db) = Inr d \<Longrightarrow>
   (if \<exists>r\<in>set db. id_doc r = Some document_id \<and> active r
    then dom d = {''id'', ''title''} \<and> ''error'' \<notin> dom d
    else dom d = {''error''})"
proof -
  assume r: "fst (get_document document_id db) = Inr d"
  show ?thesis
  proof (cases "filter (\<lambda>r. id_doc r = Some document_id \<and> active r) db")
    case Nil
    with r have "d = [''error'' \<mapsto> PyStr ''Document not found.'']"
      by (simp add: get_document_cases)
    with Nil no_match_iff [of document_id db] show ?thesis
      by (simp only: dom_not_found if_False)
  next
    case (Cons obj rest)
    with r have "d = [''id'' \<mapsto> py_id obj, ''title'' \<mapsto> PyStr (title obj)]"
      by (auto simp: get_document_cases split: list.splits)
    moreover from Cons no_match_iff [of document_id db]
    have "\<exists>r\<in>set db. id_doc r = Some document_id \<and> active r" by simp
    ultimately show ?thesis by (simp only: dom_found if_True) simp
  qed
qed

theorem get_document_shapes_witness:
  "fst (get_document 1 example_db) = Inr [''id'' \<mapsto> PyInt 1, ''title'' \<mapsto> PyStr ''Report'']
   \<and> dom [''id'' \<mapsto> PyInt 1, ''title'' \<mapsto> PyStr ''Report''] = {''id'', ''title''}
   \<and> fst (get_document 2 example_db) = Inr [''error'' \<mapsto> PyStr ''Document not found.'']
   \<and> dom [''error'' \<mapsto> PyStr ''Document not found.''] = {''error''}"
proof -
  have f: "fst (get_document 1 example_db) = Inr [''id'' \<mapsto> PyInt 1, ''title'' \<mapsto> PyStr ''Report'']"
    by (simp add: get_document_def objects_get_def py_id_def example_db_def report_row_def
        memo_row_def)
  have n: "fst (get_document 2 example_db) = Inr [''error'' \<mapsto> PyStr ''Document not found.'']"
    by (simp add: get_document_def objects_get_def example_db_def report_row_def memo_row_def)
  from get_document_shapes [OF f] get_document_shapes [OF n] f n show ?thesis
    by (simp add: example_db_def report_row_def memo_row_def)
qed

subsection \<open>The queries leave the table alone\<close>

text \<open>
  C8. \<^verbatim>\<open>list_documents()\<close> and \<^verbatim>\<open>get_document(document_id)\<close> only read: the table after
  the call is the table before it, rows and fields.
\<close>

theorem queries_read_only:
  "snd (list_documents db) = db \<and> snd (get_document document_id db) = db"
  by (simp add: list_documents_def objects_filter_def get_document_def objects_get_def
      split: list.splits)

theorem queries_read_only_witness:
  "snd (list_documents example_db) = example_db \<and> snd (get_document 1 example_db) = example_db"
  by (rule queries_read_only)

section \<open>The scenario of the specification\<close>

text \<open>
  Creating document A (title Report, active by default) sets its \<^verbatim>\<open>active_at\<close>; the
  listing then holds A; setting A inactive and saving unsets \<^verbatim>\<open>active_at\<close>; and
  \<^verbatim>\<open>get_document\<close> then answers that A is not found.
\<close>

lemma scenario:
  "(case save 100 101 report [] of
      (a, db1) \<Rightarrow>
        active_at a = Some 100 \<and> id_doc a = Some 1
        \<and> fst (list_documents db1) = [[''id'' \<mapsto> PyInt 1, ''title'' \<mapsto> PyStr ''Report'']]
        \<and> (case save 200 201 (a\<lparr>active := False\<rparr>) db1 of
             (a', db2) \<Rightarrow>
               active_at a' = None
               \<and> fst (get_document 1 db2) = Inr [''error'' \<mapsto> PyStr ''Document not found.'']))"
  by (simp add: save_def save_active_at_def Model_save_def Let_def fresh_id_def report_def
      list_documents_def objects_filter_def get_document_def objects_get_def py_id_def)

end
